theory Spec2Isabelle
  imports Complex_Main "HOL-Library.Word" "HOL-Library.Char_ord" "HOL-Library.List_Lexorder"
    "HOL-Library.AList"
begin

section \<open>Go values used by the handlers\<close>

text \<open>
  A Go \<open>string\<close> and a \<open>[]byte\<close> are both sequences of bytes: \<^typ>\<open>string\<close>
  (a list of \<^typ>\<open>char\<close>, one per byte).  An index or slice expression that leaves
  the bounds panics at run time; the model returns \<open>None\<close> there.
\<close>

definition index :: "string \<Rightarrow> int \<Rightarrow> char option" where
  \<comment> \<open>\<open>s[i]\<close>\<close>
  "index s i = (if 0 \<le> i \<and> i < int (length s) then Some (s ! nat i) else None)"

definition slice_to :: "string \<Rightarrow> int \<Rightarrow> string option" where
  \<comment> \<open>\<open>s[:j]\<close>\<close>
  "slice_to s j = (if 0 \<le> j \<and> j \<le> int (length s) then Some (take (nat j) s) else None)"

definition slice_from :: "string \<Rightarrow> int \<Rightarrow> string option" where
  \<comment> \<open>\<open>s[i:]\<close>\<close>
  "slice_from s i = (if 0 \<le> i \<and> i \<le> int (length s) then Some (drop (nat i) s) else None)"

section \<open>lastChunk\<close>

text \<open>
  The \<open>for\<close> loop of \<open>lastChunk\<close>, with the loop variable \<open>i\<close> as argument:
  \<^verbatim>\<open>for i := len(path) - 1; i >= 0; i-- { if path[i] == '/' { return path[i+1:] } }
  return path\<close>
\<close>

function lastChunk_loop :: "string \<Rightarrow> int \<Rightarrow> string option" where
  "lastChunk_loop path i =
     (if i \<ge> 0 then
        (case index path i of
           None \<Rightarrow> None
         | Some c \<Rightarrow>
             if c = CHR ''/'' then slice_from path (i + 1)
             else lastChunk_loop path (i - 1))
      else Some path)"
  by pat_completeness auto
termination
  by (relation "measure (\<lambda>(path, i). nat (i + 1))") auto

declare lastChunk_loop.simps [simp del]

definition lastChunk :: "string \<Rightarrow> string option" where
  "lastChunk path =
     (case index path (int (length path) - 1) of
        None \<Rightarrow> None
      | Some c \<Rightarrow>
          (case (if c = CHR ''/'' then slice_to path (int (length path) - 1) else Some path) of
             None \<Rightarrow> None
           | Some path' \<Rightarrow> lastChunk_loop path' (int (length path') - 1)))"

text \<open>The substring that follows the last \<open>/\<close> of a path (the whole path when it has none).\<close>

definition after_last_slash :: "string \<Rightarrow> string" where
  "after_last_slash p = rev (takeWhile (\<lambda>c. c \<noteq> CHR ''/'') (rev p))"

definition drop_one_trailing_slash :: "string \<Rightarrow> string" where
  "drop_one_trailing_slash p = (if p \<noteq> [] \<and> last p = CHR ''/'' then butlast p else p)"

section \<open>The Go library functions the handlers call\<close>

subsection \<open>bytes.TrimSpace and strings.TrimSpace\<close>

text \<open>
  Both remove the leading and the trailing white space, as \<open>unicode.IsSpace\<close> defines
  it, from UTF-8 text.  \<open>utf8.DecodeRune\<close> and \<open>utf8.DecodeLastRune\<close> yield a
  white-space rune exactly where the bytes begin (end) with the UTF-8 encoding of one:
  the six ASCII characters, U+0085, U+00A0, U+1680, U+2000 to U+200A, U+2028, U+2029,
  U+202F, U+205F and U+3000.
\<close>

definition space_encodings :: "string list" where
  "space_encodings =
     [[CHR 0x09], [CHR 0x0A], [CHR 0x0B], [CHR 0x0C], [CHR 0x0D], [CHR 0x20],
      [CHR 0xC2, CHR 0x85], [CHR 0xC2, CHR 0xA0],
      [CHR 0xE1, CHR 0x9A, CHR 0x80],
      [CHR 0xE2, CHR 0x80, CHR 0x80], [CHR 0xE2, CHR 0x80, CHR 0x81],
      [CHR 0xE2, CHR 0x80, CHR 0x82], [CHR 0xE2, CHR 0x80, CHR 0x83],
      [CHR 0xE2, CHR 0x80, CHR 0x84], [CHR 0xE2, CHR 0x80, CHR 0x85],
      [CHR 0xE2, CHR 0x80, CHR 0x86], [CHR 0xE2, CHR 0x80, CHR 0x87],
      [CHR 0xE2, CHR 0x80, CHR 0x88], [CHR 0xE2, CHR 0x80, CHR 0x89],
      [CHR 0xE2, CHR 0x80, CHR 0x8A],
      [CHR 0xE2, CHR 0x80, CHR 0xA8], [CHR 0xE2, CHR 0x80, CHR 0xA9],
      [CHR 0xE2, CHR 0x80, CHR 0xAF],
      [CHR 0xE2, CHR 0x81, CHR 0x9F],
      [CHR 0xE3, CHR 0x80, CHR 0x80]]"

definition leading_space :: "string \<Rightarrow> nat" where
  \<comment> \<open>the width of the white-space rune the text begins with, 0 when it begins with none\<close>
  "leading_space s =
     (case find (\<lambda>e. take (length e) s = e) space_encodings of
        None \<Rightarrow> 0 | Some e \<Rightarrow> length e)"

definition trailing_space :: "string \<Rightarrow> nat" where
  \<comment> \<open>the width of the white-space rune the text ends with, 0 when it ends with none\<close>
  "trailing_space s =
     (case find (\<lambda>e. take (length e) (rev s) = rev e) space_encodings of
        None \<Rightarrow> 0 | Some e \<Rightarrow> length e)"

fun TrimLeft :: "string \<Rightarrow> string" where
  "TrimLeft [] = []"
| "TrimLeft (c # cs) =
     (if leading_space (c # cs) = 0 then c # cs
      else TrimLeft (drop (leading_space (c # cs) - 1) cs))"

fun TrimRight_rev :: "string \<Rightarrow> string" where
  \<comment> \<open>on the reversed text\<close>
  "TrimRight_rev [] = []"
| "TrimRight_rev (c # cs) =
     (if trailing_space (rev (c # cs)) = 0 then c # cs
      else TrimRight_rev (drop (trailing_space (rev (c # cs)) - 1) cs))"

definition TrimRight :: "string \<Rightarrow> string" where
  "TrimRight s = rev (TrimRight_rev (rev s))"

definition TrimSpace :: "string \<Rightarrow> string" where
  "TrimSpace s = TrimRight (TrimLeft s)"

subsection \<open>strconv.ParseInt(s, 10, 64)\<close>

type_synonym int64 = "64 word"
type_synonym uint64 = "64 word"

datatype NumError = ErrSyntax | ErrRange

text \<open>
  The digit loop of \<open>strconv.ParseUint\<close> for base 10 and 64 bits, on \<open>uint64\<close>:
  a byte that is no decimal digit is a syntax error with value 0; when the next digit
  does not fit, the result is the largest value with a range error.
\<close>

fun ParseUint_loop :: "uint64 \<Rightarrow> string \<Rightarrow> uint64 \<times> NumError option" where
  "ParseUint_loop n [] = (n, None)"
| "ParseUint_loop n (c # cs) =
     (if \<not> (CHR ''0'' \<le> c \<and> c \<le> CHR ''9'') then (0, Some ErrSyntax)
      else if n \<ge> 1844674407370955162 then (18446744073709551615, Some ErrRange)
      else
        (let n10 = n * 10;
             n1 = n10 + (of_char c - 48)
         in if n1 < n10 \<or> n1 > 18446744073709551615 then (18446744073709551615, Some ErrRange)
            else ParseUint_loop n1 cs))"

definition ParseUint :: "string \<Rightarrow> uint64 \<times> NumError option" where
  "ParseUint s = (if s = [] then (0, Some ErrSyntax) else ParseUint_loop 0 s)"

definition ParseInt :: "string \<Rightarrow> int64 \<times> NumError option" where
  "ParseInt s =
     (if s = [] then (0, Some ErrSyntax)
      else
        (let neg = (hd s = CHR ''-'');
             s' = (if hd s = CHR ''+'' \<or> hd s = CHR ''-'' then tl s else s);
             (un, err) = ParseUint s'
         in if err \<noteq> None \<and> err \<noteq> Some ErrRange then (0, err)
            else if \<not> neg \<and> un \<ge> 9223372036854775808 then (9223372036854775807, Some ErrRange)
            else if neg \<and> un > 9223372036854775808 then (- 9223372036854775808, Some ErrRange)
            else (if neg then - un else un, None)))"

subsection \<open>Printing an int64 in decimal\<close>

text \<open>The decimal digits of a number that is not negative.\<close>

function formatBits :: "int \<Rightarrow> string" where
  "formatBits u =
     (if u < 10 then [char_of (48 + u)]
      else formatBits (u div 10) @ [char_of (48 + u mod 10)])"
  by pat_completeness auto
termination
  by (relation "measure nat") auto

declare formatBits.simps [simp del]

definition FormatInt :: "int64 \<Rightarrow> string" where
  "FormatInt i =
     (if sint i < 0 then CHR ''-'' # formatBits (- sint i) else formatBits (sint i))"

section \<open>The collaborators of handlers.go\<close>

text \<open>
  The handlers use declarations of the package that are outside handlers.go: the
  \<open>Store\<close> interface, the \<open>Benchmark\<close> it returns, the sentinel
  \<open>ErrNotFound\<close>, and \<open>Compare\<close>.  They are parameters of the model.  A Go
  \<open>error\<close> is either the sentinel or another error with its text; a call that returns
  \<open>(value, error)\<close> is a sum, \<open>Inl\<close> the error.  The store and \<open>Compare\<close> may
  read and change the world outside the process (a database, files), which is the state
  \<open>'s\<close> that every call takes and returns.
\<close>

datatype error = ErrNotFound | ErrOther string

record Benchmark =
  ID :: int64
  Created :: int
  Commit :: string
  Content :: string

datatype arg = Arg_string string | Arg_int64 int64 | Arg_error error

record 's env =
  CreateBenchmark :: "'s \<Rightarrow> string \<Rightarrow> string \<Rightarrow> (error + int64) \<times> 's"
  FindBenchmark :: "'s \<Rightarrow> int64 \<Rightarrow> (error + Benchmark) \<times> 's"
  Compare :: "'s \<Rightarrow> Benchmark \<Rightarrow> Benchmark \<Rightarrow> (error + string) \<times> 's"
  Sprintf :: "string \<Rightarrow> arg list \<Rightarrow> string"
  ExecuteTemplate :: "string \<Rightarrow> string \<Rightarrow> string"

text \<open>
  Every call to the store or to \<open>Compare\<close> is recorded, in order, with whether it
  returned an error.
\<close>

datatype operation =
    CreateBenchmark_op string string
  | FindBenchmark_op int64
  | Compare_op Benchmark Benchmark

record 's world =
  state :: 's
  trace :: "(operation \<times> bool) list"

definition call_CreateBenchmark ::
  "'s env \<Rightarrow> 's world \<Rightarrow> string \<Rightarrow> string \<Rightarrow> (error + int64) \<times> 's world" where
  "call_CreateBenchmark c wd content commit =
     (let (res, s') = CreateBenchmark c (state wd) content commit
      in (res, \<lparr>state = s', trace = trace wd @ [(CreateBenchmark_op content commit, isl res)]\<rparr>))"

definition call_FindBenchmark ::
  "'s env \<Rightarrow> 's world \<Rightarrow> int64 \<Rightarrow> (error + Benchmark) \<times> 's world" where
  "call_FindBenchmark c wd benchID =
     (let (res, s') = FindBenchmark c (state wd) benchID
      in (res, \<lparr>state = s', trace = trace wd @ [(FindBenchmark_op benchID, isl res)]\<rparr>))"

definition call_Compare ::
  "'s env \<Rightarrow> 's world \<Rightarrow> Benchmark \<Rightarrow> Benchmark \<Rightarrow> (error + string) \<times> 's world" where
  "call_Compare c wd a b =
     (let (res, s') = Compare c (state wd) a b
      in (res, \<lparr>state = s', trace = trace wd @ [(Compare_op a b, isl res)]\<rparr>))"

section \<open>The response writer and the requests\<close>

text \<open>
  \<open>http.ResponseWriter\<close>: the header map, the status code once it is written (the
  first \<open>WriteHeader\<close> wins, and a \<open>Write\<close> before any \<open>WriteHeader\<close> writes 200),
  and the bytes of the body.  Header names stand for their canonical form.
\<close>

record ResponseWriter =
  header :: "(string \<times> string) list"
  status :: "nat option"
  body :: string

definition Header_Get :: "ResponseWriter \<Rightarrow> string \<Rightarrow> string" where
  "Header_Get w k = (case map_of (header w) k of None \<Rightarrow> [] | Some v \<Rightarrow> v)"

definition Header_Set :: "ResponseWriter \<Rightarrow> string \<Rightarrow> string \<Rightarrow> ResponseWriter" where
  "Header_Set w k v = w\<lparr>header := (k, v) # header w\<rparr>"

definition WriteHeader :: "ResponseWriter \<Rightarrow> nat \<Rightarrow> ResponseWriter" where
  "WriteHeader w code = (if status w = None then w\<lparr>status := Some code\<rparr> else w)"

definition Write :: "ResponseWriter \<Rightarrow> string \<Rightarrow> ResponseWriter" where
  "Write w bs = (let w' = WriteHeader w 200 in w'\<lparr>body := body w' @ bs\<rparr>)"

definition newResponseWriter :: "(string \<times> string) list \<Rightarrow> ResponseWriter" where
  \<comment> \<open>the writer a handler is given: nothing written yet\<close>
  "newResponseWriter hs = \<lparr>header = hs, status = None, body = []\<rparr>"

text \<open>A handler returns with the writer it has written to, or panics.\<close>

datatype outcome = Panic | Response ResponseWriter

text \<open>
  What the handlers read of a request: the URL path and the query values
  (\<open>Get\<close> yields the first value of a key, the empty string when there is none).
\<close>

record request =
  URL_Path :: string
  URL_Query :: "(string \<times> string) list"

definition Query_Get :: "request \<Rightarrow> string \<Rightarrow> string" where
  "Query_Get r k = (case map_of (URL_Query r) k of None \<Rightarrow> [] | Some v \<Rightarrow> v)"

text \<open>
  What \<open>uploadHandler\<close> reads of a request: the error of \<open>ParseMultipartForm\<close> if
  any; the file part \<open>content\<close> (\<open>None\<close> when \<open>FormFile\<close> finds none and returns a
  nil file, \<open>Inl\<close> the error of \<open>ReadAll\<close>, \<open>Inr\<close> the bytes read); the form
  value \<open>commit\<close>.
\<close>

record upload_request =
  ParseMultipartForm_err :: "error option"
  FormFile_content :: "(error + string) option"
  Form_commit :: string

section \<open>handlers.go\<close>

definition httpFailf :: "'s env \<Rightarrow> ResponseWriter \<Rightarrow> nat \<Rightarrow> string \<Rightarrow> arg list \<Rightarrow> ResponseWriter" where
  "httpFailf c w code format args =
     (let msg = Sprintf c format args;
          w1 = Header_Set w ''content-type'' ''text/html;charset=utf-8'';
          w2 = WriteHeader w1 code
      in Write w2 (ExecuteTemplate c ''error'' msg))"

definition signed :: "string \<Rightarrow> string \<Rightarrow> string \<Rightarrow> bool" where
  "signed sig content secret = True"

definition uploadHandler ::
  "'s env \<Rightarrow> string \<Rightarrow> ResponseWriter \<Rightarrow> upload_request \<Rightarrow> 's world \<Rightarrow> outcome \<times> 's world" where
  "uploadHandler c secret w r wd =
     (case ParseMultipartForm_err r of
        Some err \<Rightarrow> (Response (httpFailf c w 400 ''parse: %s'' [Arg_error err]), wd)
      | None \<Rightarrow>
     (case FormFile_content r of
        None \<Rightarrow> (Panic, wd)
      | Some (Inl err) \<Rightarrow> (Response (httpFailf c w 400 ''read content: %s'' [Arg_error err]), wd)
      | Some (Inr raw) \<Rightarrow>
     (let content = TrimSpace raw in
      if length content = 0 then (Response (httpFailf c w 400 ''content is required'' []), wd)
      else
     (let commit = TrimSpace (Form_commit r) in
      if commit = [] then (Response (httpFailf c w 400 ''commit is required'' []), wd)
      else if \<not> signed (Header_Get w ''signature'') content secret
        then (Response (WriteHeader w 401), wd)
      else if length content < 10 then (Response (WriteHeader w 400), wd)
      else
     (case call_CreateBenchmark c wd content commit of
        (Inl err, wd') \<Rightarrow>
          (Response (httpFailf c w 500 ''cannot upload: %s'' [Arg_error err]), wd')
      | (Inr benchID, wd') \<Rightarrow>
          (Response (Write (WriteHeader w 201) (FormatInt benchID @ [CHR 0x0A])), wd'))))))"

definition showBenchmark ::
  "'s env \<Rightarrow> ResponseWriter \<Rightarrow> request \<Rightarrow> 's world \<Rightarrow> outcome \<times> 's world" where
  "showBenchmark c w r wd =
     (case lastChunk (URL_Path r) of
        None \<Rightarrow> (Panic, wd)
      | Some chunk \<Rightarrow>
     (let benchID = fst (ParseInt chunk) in
      if benchID = 0 then (Response (httpFailf c w 404 ''benchmark not found'' []), wd)
      else
     (case call_FindBenchmark c wd benchID of
        (Inr bench, wd') \<Rightarrow> (Response (Write w (Content bench)), wd')
      | (Inl ErrNotFound, wd') \<Rightarrow> (Response (httpFailf c w 404 ''benchmark not found'' []), wd')
      | (Inl (ErrOther msg), wd') \<Rightarrow> (Response (httpFailf c w 500 msg []), wd'))))"

definition compareHandler ::
  "'s env \<Rightarrow> ResponseWriter \<Rightarrow> request \<Rightarrow> 's world \<Rightarrow> outcome \<times> 's world" where
  "compareHandler c w r wd =
     (if Query_Get r ''a'' = [] \<or> Query_Get r ''b'' = [] then
        (Response (httpFailf c w 400 ''Missing benchmarks IDs. Usage %s?a=<ID>&b=<ID>''
           [Arg_string (URL_Path r)]), wd)
      else
     (let aID = fst (ParseInt (Query_Get r ''a'')) in
      case call_FindBenchmark c wd aID of
        (Inl err, wd1) \<Rightarrow>
          (let code = (if err = ErrNotFound then 404 else 500)
           in (Response (httpFailf c w code ''cannot find benchmark %d: %s''
                 [Arg_int64 aID, Arg_error err]), wd1))
      | (Inr a, wd1) \<Rightarrow>
     (let bID = fst (ParseInt (Query_Get r ''b'')) in
      case call_FindBenchmark c wd1 bID of
        (Inl err, wd2) \<Rightarrow>
          (let code = (if err = ErrNotFound then 404 else 500)
           in (Response (httpFailf c w code ''cannot find benchmark %d: %s''
                 [Arg_int64 bID, Arg_error err]), wd2))
      | (Inr b, wd2) \<Rightarrow>
     (case call_Compare c wd2 a b of
        (Inl err, wd3) \<Rightarrow>
          (Response (httpFailf c w 500 ''cannot compare: %s'' [Arg_error err]), wd3)
      | (Inr cmp, wd3) \<Rightarrow> (Response (Write w cmp), wd3)))))"

section \<open>What a client and the collaborators observe\<close>

text \<open>
  The status code the client receives (200 when the handler returns without writing
  one; none when the handler panics), and the body.
\<close>

fun status_code :: "outcome \<Rightarrow> nat option" where
  "status_code Panic = None"
| "status_code (Response w) = Some (case status w of None \<Rightarrow> 200 | Some code \<Rightarrow> code)"

fun response_body :: "outcome \<Rightarrow> string" where
  "response_body Panic = []"
| "response_body (Response w) = body w"

text \<open>The calls a handler has added to the trace it started from.\<close>

definition new_calls :: "'s world \<Rightarrow> 's world \<Rightarrow> (operation \<times> bool) list" where
  "new_calls wd wd' = drop (length (trace wd)) (trace wd')"

fun is_store_call :: "operation \<Rightarrow> bool" where
  "is_store_call (CreateBenchmark_op content commit) = True"
| "is_store_call (FindBenchmark_op benchID) = True"
| "is_store_call (Compare_op a b) = False"

definition store_calls :: "(operation \<times> bool) list \<Rightarrow> operation list" where
  "store_calls evs = filter is_store_call (map fst evs)"

text \<open>
  An in-memory store, to run the handlers on concrete requests: the state is the list
  of stored runs, ids count from 1, id 500 stands for a run whose lookup fails with an
  error other than \<open>ErrNotFound\<close>, and \<open>Compare\<close> joins the two contents.
\<close>

definition memory_env :: "Benchmark list env" where
  "memory_env =
     \<lparr>CreateBenchmark = (\<lambda>s content commit.
        (Inr (word_of_nat (length s) + 1),
         s @ [\<lparr>ID = word_of_nat (length s) + 1, Created = 0, Commit = commit, Content = content\<rparr>])),
      FindBenchmark = (\<lambda>s benchID.
        (if benchID = 500 then Inl (ErrOther ''connection lost'')
         else case find (\<lambda>b. ID b = benchID) s of
                None \<Rightarrow> Inl ErrNotFound
              | Some b \<Rightarrow> Inr b, s)),
      Compare = (\<lambda>s a b. (Inr (Content a @ ''|'' @ Content b), s)),
      Sprintf = (\<lambda>format args. format),
      ExecuteTemplate = (\<lambda>name data. data)\<rparr>"

definition two_runs :: "Benchmark list world" where
  "two_runs =
     \<lparr>state = [\<lparr>ID = 1, Created = 0, Commit = ''c1'', Content = ''BenchmarkA 10 5 ns/op''\<rparr>,
               \<lparr>ID = 2, Created = 0, Commit = ''c2'', Content = ''BenchmarkA 10 6 ns/op''\<rparr>],
      trace = []\<rparr>"

section \<open>The parser and the comparator of the specification\<close>

text \<open>
  Modelled from the spec: \<open>Compare\<close> is called by \<open>compareHandler\<close> but is
  defined outside handlers.go, and so are the parser and the comparator that the
  specification describes (sections 3, 4.1 and 4.2).  The definitions of this section
  follow the words of the specification.

  A measured value is a \<^typ>\<open>rat\<close>: every finite floating-point number is one, and
  rounding is not modelled.  Which tokens denote a number, and which number, is the
  parameter \<open>number\<close> of the parser.  A mapping is an association list, read with
  \<^const>\<open>map_of\<close> and written with \<^const>\<open>AList.update\<close>, which replaces the
  value of a key that is present: the last occurrence wins.
\<close>

type_synonym Metrics = "(string \<times> rat) list"
type_synonym BenchmarkRun = "(string \<times> Metrics) list"

datatype ParseError = ParseError string

subsection \<open>Lines and tokens\<close>

definition white_space :: "char \<Rightarrow> bool" where
  "white_space c \<longleftrightarrow> c \<in> set [CHR 0x20, CHR 0x09, CHR 0x0A, CHR 0x0B, CHR 0x0C, CHR 0x0D]"

fun lines_from :: "string \<Rightarrow> string \<Rightarrow> string list" where
  "lines_from cur [] = [rev cur]"
| "lines_from cur (c # cs) =
     (if c = CHR 0x0A then rev cur # lines_from [] cs else lines_from (c # cur) cs)"

definition text_lines :: "string \<Rightarrow> string list" where
  "text_lines rawText = lines_from [] rawText"

fun tokens_from :: "string \<Rightarrow> string \<Rightarrow> string list" where
  "tokens_from cur [] = (if cur = [] then [] else [rev cur])"
| "tokens_from cur (c # cs) =
     (if white_space c then (if cur = [] then tokens_from [] cs else rev cur # tokens_from [] cs)
      else tokens_from (c # cur) cs)"

definition tokens :: "string \<Rightarrow> string list" where
  "tokens line = tokens_from [] line"

definition starts_with :: "string \<Rightarrow> string \<Rightarrow> bool" where
  "starts_with p s \<longleftrightarrow> take (length p) s = p"

text \<open>A candidate line: its first token starts with \<open>Benchmark\<close>.\<close>

definition candidate_line :: "string \<Rightarrow> bool" where
  "candidate_line line =
     (case tokens line of [] \<Rightarrow> False | t0 # rest \<Rightarrow> starts_with ''Benchmark'' t0)"

subsection \<open>The parser (section 4.1)\<close>

text \<open>
  Token 0 is the name and token 1, when there is one, the iteration count; the tokens
  after it are taken two by two as value and unit, a token left over at the end is
  dropped.  A pair whose value is no number is skipped.  A candidate line that yields no
  metric is skipped: a measurement has at least one metric.
\<close>

fun value_unit_pairs :: "string list \<Rightarrow> (string \<times> string) list" where
  "value_unit_pairs (v # u # rest) = (v, u) # value_unit_pairs rest"
| "value_unit_pairs rest = []"

definition add_metric :: "(string \<Rightarrow> rat option) \<Rightarrow> string \<times> string \<Rightarrow> Metrics \<Rightarrow> Metrics" where
  "add_metric number p ms =
     (case number (fst p) of None \<Rightarrow> ms | Some x \<Rightarrow> AList.update (snd p) x ms)"

definition line_metrics :: "(string \<Rightarrow> rat option) \<Rightarrow> string list \<Rightarrow> Metrics" where
  "line_metrics number toks = fold (add_metric number) (value_unit_pairs toks) []"

definition parse_line :: "(string \<Rightarrow> rat option) \<Rightarrow> string \<Rightarrow> (string \<times> Metrics) option" where
  "parse_line number line =
     (case tokens line of
        [] \<Rightarrow> None
      | t0 # rest \<Rightarrow>
          if \<not> starts_with ''Benchmark'' t0 then None
          else (let ms = line_metrics number (drop 1 rest)
                in if ms = [] then None else Some (t0, ms)))"

definition add_line :: "(string \<Rightarrow> rat option) \<Rightarrow> string \<Rightarrow> BenchmarkRun \<Rightarrow> BenchmarkRun" where
  "add_line number line run =
     (case parse_line number line of None \<Rightarrow> run | Some (n, ms) \<Rightarrow> AList.update n ms run)"

text \<open>
  Modelled from the spec: \<open>parse\<close> (section 4.1), which is not in handlers.go.  The
  lines are scanned in order; the parse fails when no measurement was collected.
\<close>

definition parse :: "(string \<Rightarrow> rat option) \<Rightarrow> string \<Rightarrow> ParseError + BenchmarkRun" where
  "parse number rawText =
     (let run = fold (add_line number) (text_lines rawText) []
      in if run = [] then Inl (ParseError ''no benchmark measurements found'') else Inr run)"

text \<open>
  A well-formed measurement line (section 6.1): the name, the iteration count, and one
  or more pairs of a value, which is a number, and a unit.
\<close>

definition well_formed_line :: "(string \<Rightarrow> rat option) \<Rightarrow> string \<Rightarrow> bool" where
  "well_formed_line number line =
     (case tokens line of
        t0 # iterations # rest \<Rightarrow>
          starts_with ''Benchmark'' t0 \<and> rest \<noteq> [] \<and> even (length rest) \<and>
          list_all (\<lambda>p. number (fst p) \<noteq> None) (value_unit_pairs rest)
      | _ \<Rightarrow> False)"

text \<open>
  Unsigned decimal numerals with an optional fraction, to run the parser on concrete
  text.
\<close>

definition digit_value :: "char \<Rightarrow> rat option" where
  "digit_value c =
     (if CHR ''0'' \<le> c \<and> c \<le> CHR ''9'' then Some (of_nat (of_char c - 48)) else None)"

fun decimal_from :: "rat \<Rightarrow> rat \<Rightarrow> string \<Rightarrow> rat option" where
  "decimal_from acc scale [] = Some acc"
| "decimal_from acc scale (c # cs) =
     (if c = CHR ''.'' \<and> scale = 1 then decimal_from acc (1 / 10) cs
      else case digit_value c of
             None \<Rightarrow> None
           | Some d \<Rightarrow> if scale = 1 then decimal_from (acc * 10 + d) 1 cs
                       else decimal_from (acc + d * scale) (scale / 10) cs)"

definition decimal :: "string \<Rightarrow> rat option" where
  "decimal s = (if s = [] \<or> s = ''.'' then None else decimal_from 0 1 s)"

subsection \<open>The comparator (sections 3 and 4.2)\<close>

datatype Tag = added | removed | before_zero

record ComparisonRow =
  name :: string
  metric :: string
  before :: "rat option"
  after :: "rat option"
  deltaPercent :: "rat option"
  tag :: "Tag option"

datatype ComparisonError = ComparisonError string

text \<open>
  \<open>(after - before) / before * 100\<close>.  The quotient has no value when \<open>before\<close> is
  0, and then the percentage has none (\<open>None\<close>).
\<close>

definition percent_change :: "rat \<Rightarrow> rat \<Rightarrow> rat option" where
  "percent_change b a = (if b = 0 then None else Some ((a - b) / b * 100))"

text \<open>
  The row of one metric of one name.  With both values the percentage is that of the
  formula, except that a row with \<open>before = 0\<close> and \<open>after \<noteq> 0\<close> is flagged
  \<open>before-zero\<close>; with one value the row is tagged \<open>removed\<close> or \<open>added\<close>.
\<close>

fun metric_rows :: "string \<Rightarrow> string \<Rightarrow> rat option \<Rightarrow> rat option \<Rightarrow> ComparisonRow list" where
  "metric_rows n k (Some b) (Some a) =
     (if b = 0 \<and> a \<noteq> 0
      then [\<lparr>name = n, metric = k, before = Some b, after = Some a,
             deltaPercent = None, tag = Some before_zero\<rparr>]
      else [\<lparr>name = n, metric = k, before = Some b, after = Some a,
             deltaPercent = percent_change b a, tag = None\<rparr>])"
| "metric_rows n k (Some b) None =
     [\<lparr>name = n, metric = k, before = Some b, after = None, deltaPercent = None, tag = Some removed\<rparr>]"
| "metric_rows n k None (Some a) =
     [\<lparr>name = n, metric = k, before = None, after = Some a, deltaPercent = None, tag = Some added\<rparr>]"
| "metric_rows n k None None = []"

definition sorted_union :: "string list \<Rightarrow> string list \<Rightarrow> string list" where
  \<comment> \<open>the union of two sets of keys, in lexicographic order\<close>
  "sorted_union xs ys = sort (remdups (xs @ ys))"

definition name_rows :: "BenchmarkRun \<Rightarrow> BenchmarkRun \<Rightarrow> string \<Rightarrow> ComparisonRow list" where
  "name_rows left right n =
     (case (map_of left n, map_of right n) of
        (Some l, None) \<Rightarrow>
          concat (map (\<lambda>k. metric_rows n k (map_of l k) None) (sorted_union (map fst l) []))
      | (None, Some r) \<Rightarrow>
          concat (map (\<lambda>k. metric_rows n k None (map_of r k)) (sorted_union [] (map fst r)))
      | (Some l, Some r) \<Rightarrow>
          concat (map (\<lambda>k. metric_rows n k (map_of l k) (map_of r k))
            (sorted_union (map fst l) (map fst r)))
      | (None, None) \<Rightarrow> [])"

text \<open>
  Modelled from the spec: \<open>compare\<close> (section 4.2), which is not in handlers.go.  It
  fails when the two runs share no benchmark name (which is the case when both are
  empty); otherwise the rows of every name of the union, in lexicographic order.
\<close>

definition compare :: "BenchmarkRun \<Rightarrow> BenchmarkRun \<Rightarrow> ComparisonError + ComparisonRow list" where
  "compare left right =
     (if filter (\<lambda>n. n \<in> set (map fst right)) (map fst left) = []
      then Inl (ComparisonError ''nothing to compare'')
      else Inr (concat (map (name_rows left right) (sorted_union (map fst left) (map fst right)))))"


section \<open>Properties of lastChunk\<close>

lemma after_last_slash_none:
  "CHR ''/'' \<notin> set p \<Longrightarrow> after_last_slash p = p"
proof -
  assume "CHR ''/'' \<notin> set p"
  then have "takeWhile (\<lambda>c. c \<noteq> CHR ''/'') (rev p) = rev p"
    by (intro takeWhile_eq_all_conv [THEN iffD2]) auto
  then show ?thesis by (simp only: after_last_slash_def rev_rev_ident)
qed

lemma after_last_slash_split:
  "CHR ''/'' \<notin> set ys \<Longrightarrow> after_last_slash (xs @ CHR ''/'' # ys) = ys"
proof -
  assume "CHR ''/'' \<notin> set ys"
  then have "takeWhile (\<lambda>c. c \<noteq> CHR ''/'') (rev ys @ CHR ''/'' # rev xs) = rev ys"
    by (subst takeWhile_tail) (auto simp: takeWhile_eq_all_conv)
  then show ?thesis by (simp add: after_last_slash_def)
qed

lemma after_last_slash_no_slash:
  "CHR ''/'' \<notin> set (after_last_slash p)"
  using set_takeWhileD [of "CHR ''/''" "\<lambda>c. c \<noteq> CHR ''/''" "rev p"]
  by (auto simp: after_last_slash_def)

lemma lastChunk_loop_scan:
  "n \<le> length p \<Longrightarrow> CHR ''/'' \<notin> set (drop n p) \<Longrightarrow>
   lastChunk_loop p (int n - 1) = Some (after_last_slash p)"
proof (induction n)
  case 0
  then show ?case
    by (simp add: lastChunk_loop.simps [of p "-1"] after_last_slash_none)
next
  case (Suc n)
  then have n: "n < length p" by simp
  have dr: "drop n p = p ! n # drop (Suc n) p"
    using n by (simp add: Cons_nth_drop_Suc)
  show ?case
  proof (cases "p ! n = CHR ''/''")
    case True
    have "p = take n p @ CHR ''/'' # drop (Suc n) p"
      using n True by (metis id_take_nth_drop)
    then have "after_last_slash p = drop (Suc n) p"
      using Suc.prems(2) after_last_slash_split by metis
    then show ?thesis
      using n True
      by (simp add: lastChunk_loop.simps [of p "int n"] index_def slice_from_def nat_add_distrib)
  next
    case False
    then have "CHR ''/'' \<notin> set (drop n p)"
      using Suc.prems(2) dr by auto
    then have "lastChunk_loop p (int n - 1) = Some (after_last_slash p)"
      using Suc.IH n by simp
    then show ?thesis
      using n False
      by (simp add: lastChunk_loop.simps [of p "int n"] index_def)
  qed
qed

lemma lastChunk_nonempty:
  "path \<noteq> [] \<Longrightarrow> lastChunk path = Some (after_last_slash (drop_one_trailing_slash path))"
proof -
  assume ne: "path \<noteq> []"
  then have ix: "index path (int (length path) - 1) = Some (last path)"
    by (cases path rule: rev_cases) (auto simp: index_def nth_append)
  have sl: "slice_to path (int (length path) - 1) = Some (butlast path)"
    using ne by (cases path rule: rev_cases) (auto simp: slice_to_def)
  have lp: "lastChunk_loop q (int (length q) - 1) = Some (after_last_slash q)" for q
    using lastChunk_loop_scan [of "length q" q] by simp
  show ?thesis
  proof (cases "last path = CHR ''/''")
    case True
    then show ?thesis
      using ne lp [of "butlast path"]
      by (simp add: lastChunk_def ix sl drop_one_trailing_slash_def del: length_butlast)
  next
    case False
    then show ?thesis
      using ne lp [of path]
      by (simp add: lastChunk_def ix drop_one_trailing_slash_def)
  qed
qed

lemma lastChunk_empty: "lastChunk [] = None"
  by (simp add: lastChunk_def index_def)

section \<open>Properties of TrimSpace\<close>

lemma space_encodings_nonempty: "e \<in> set space_encodings \<Longrightarrow> e \<noteq> []"
  by (auto simp: space_encodings_def)


lemma trailing_space_0_iff:
  "trailing_space s = 0 \<longleftrightarrow> (\<forall>e \<in> set space_encodings. take (length e) (rev s) \<noteq> rev e)"
proof (cases "find (\<lambda>e. take (length e) (rev s) = rev e) space_encodings")
  case None
  have "\<forall>e \<in> set space_encodings. take (length e) (rev s) \<noteq> rev e"
    using None by (auto simp: find_None_iff)
  then show ?thesis by (simp add: trailing_space_def None)
next
  case (Some e)
  then have "e \<in> set space_encodings" "take (length e) (rev s) = rev e"
    by (auto simp: find_Some_iff)
  then show ?thesis
    using Some space_encodings_nonempty [of e] by (auto simp: trailing_space_def)
qed











section \<open>Properties of the response writer and of the recorded calls\<close>

lemma status_httpFailf [simp]:
  "status (httpFailf c (newResponseWriter hs) code format args) = Some code"
  by (simp add: httpFailf_def Write_def WriteHeader_def Header_Set_def newResponseWriter_def)

lemma status_Write_new [simp]:
  "status (Write (newResponseWriter hs) bs) = Some 200"
  "body (Write (newResponseWriter hs) bs) = bs"
  by (simp_all add: Write_def WriteHeader_def newResponseWriter_def)

lemma status_WriteHeader_new [simp]:
  "status (WriteHeader (newResponseWriter hs) code) = Some code"
  "body (WriteHeader (newResponseWriter hs) code) = []"
  by (simp_all add: WriteHeader_def newResponseWriter_def)

lemma Write_WriteHeader_new [simp]:
  "status (Write (WriteHeader (newResponseWriter hs) code) bs) = Some code"
  "body (Write (WriteHeader (newResponseWriter hs) code) bs) = bs"
  by (simp_all add: Write_def WriteHeader_def newResponseWriter_def)

lemma call_FindBenchmark_eq:
  "call_FindBenchmark c wd benchID =
     (fst (FindBenchmark c (state wd) benchID),
      \<lparr>state = snd (FindBenchmark c (state wd) benchID),
       trace = trace wd @ [(FindBenchmark_op benchID, isl (fst (FindBenchmark c (state wd) benchID)))]\<rparr>)"
  by (simp add: call_FindBenchmark_def split: prod.splits)

lemma call_Compare_eq:
  "call_Compare c wd a b =
     (fst (Compare c (state wd) a b),
      \<lparr>state = snd (Compare c (state wd) a b),
       trace = trace wd @ [(Compare_op a b, isl (fst (Compare c (state wd) a b)))]\<rparr>)"
  by (simp add: call_Compare_def split: prod.splits)

lemma call_CreateBenchmark_eq:
  "call_CreateBenchmark c wd content commit =
     (fst (CreateBenchmark c (state wd) content commit),
      \<lparr>state = snd (CreateBenchmark c (state wd) content commit),
       trace = trace wd @ [(CreateBenchmark_op content commit,
                 isl (fst (CreateBenchmark c (state wd) content commit)))]\<rparr>)"
  by (simp add: call_CreateBenchmark_def split: prod.splits)


lemma status_code_httpFailf [simp]:
  "status_code (Response (httpFailf c (newResponseWriter hs) code format args)) = Some code"
  by simp

section \<open>Properties of the parser and the comparator\<close>

lemma update_not_Nil: "AList.update k v al \<noteq> []"
  by (cases al) auto

lemma add_line_Nil_iff:
  "add_line number line run = [] \<longleftrightarrow> run = [] \<and> parse_line number line = None"
  by (auto simp: add_line_def update_not_Nil split: option.splits)

lemma fold_add_line_Nil_iff:
  "fold (add_line number) ls run = [] \<longleftrightarrow>
     run = [] \<and> (\<forall>line \<in> set ls. parse_line number line = None)"
  by (induction ls arbitrary: run) (auto simp: add_line_Nil_iff)

lemma add_metric_keeps: "ms \<noteq> [] \<Longrightarrow> add_metric number p ms \<noteq> []"
  by (auto simp: add_metric_def update_not_Nil split: option.splits)

lemma fold_add_metric_keeps: "ms \<noteq> [] \<Longrightarrow> fold (add_metric number) ps ms \<noteq> []"
  by (induction ps arbitrary: ms) (auto simp: add_metric_keeps)

lemma fold_add_metric_some:
  "\<exists>p \<in> set ps. number (fst p) \<noteq> None \<Longrightarrow> fold (add_metric number) ps ms \<noteq> []"
proof (induction ps arbitrary: ms)
  case Nil
  then show ?case by simp
next
  case (Cons p ps)
  show ?case
  proof (cases "number (fst p)")
    case None
    then have "\<exists>p \<in> set ps. number (fst p) \<noteq> None"
      using Cons.prems by auto
    then show ?thesis
      using Cons.IH by simp
  next
    case (Some x)
    then have "add_metric number p ms \<noteq> []"
      by (simp add: add_metric_def update_not_Nil)
    then show ?thesis
      by (simp add: fold_add_metric_keeps)
  qed
qed

lemma not_candidate_skipped: "\<not> candidate_line line \<Longrightarrow> parse_line number line = None"
  by (auto simp: candidate_line_def parse_line_def split: list.splits)

lemma well_formed_parsed:
  assumes "well_formed_line number line"
  shows "parse_line number line \<noteq> None"
proof -
  from assms obtain t0 iterations rest where toks: "tokens line = t0 # iterations # rest"
    and pre: "starts_with ''Benchmark'' t0" and ne: "rest \<noteq> []" and ev: "even (length rest)"
    and nums: "list_all (\<lambda>p. number (fst p) \<noteq> None) (value_unit_pairs rest)"
    by (auto simp: well_formed_line_def split: list.splits)
  from ne ev obtain v u rest' where rest: "rest = v # u # rest'"
    by (cases rest; cases "tl rest") auto
  then have "number v \<noteq> None"
    using nums by simp
  then have "\<exists>p \<in> set (value_unit_pairs rest). number (fst p) \<noteq> None"
    using rest by auto
  then have "line_metrics number rest \<noteq> []"
    unfolding line_metrics_def by (rule fold_add_metric_some)
  then show ?thesis
    using toks pre by (simp add: parse_line_def Let_def)
qed




section \<open>Claims\<close>

text \<open>
  C1: the result of a store lookup is handled in three ways.  In \<open>showBenchmark\<close>,
  once the id of the path is not 0: a run that is found is written as the body, with
  status 200; \<open>ErrNotFound\<close> gives status 404; any other error gives status 500.
  In \<open>compareHandler\<close>, once both query values are given: for the lookup of \<open>a\<close>
  and then for the lookup of \<open>b\<close>, \<open>ErrNotFound\<close> gives 404 and any other error
  500; when both runs are found the handler goes on to call \<open>Compare\<close> on them.
\<close>

theorem C1_lookup_three_way:
  "(lastChunk (URL_Path r) = Some chunk \<and> fst (ParseInt chunk) \<noteq> 0 \<longrightarrow>
      (case fst (FindBenchmark c (state wd) (fst (ParseInt chunk))) of
         Inr bench \<Rightarrow>
           status_code (fst (showBenchmark c (newResponseWriter hs) r wd)) = Some 200 \<and>
           response_body (fst (showBenchmark c (newResponseWriter hs) r wd)) = Content bench
       | Inl err \<Rightarrow>
           status_code (fst (showBenchmark c (newResponseWriter hs) r wd)) =
             Some (if err = ErrNotFound then 404 else 500)))
   \<and>
   (Query_Get q ''a'' \<noteq> [] \<and> Query_Get q ''b'' \<noteq> [] \<and>
    aID = fst (ParseInt (Query_Get q ''a'')) \<and> bID = fst (ParseInt (Query_Get q ''b'')) \<and>
    FindBenchmark c (state wd) aID = (resA, sA) \<and> FindBenchmark c sA bID = (resB, sB) \<longrightarrow>
      (case resA of
         Inl err \<Rightarrow>
           status_code (fst (compareHandler c (newResponseWriter hs) q wd)) =
             Some (if err = ErrNotFound then 404 else 500)
       | Inr a \<Rightarrow>
          (case resB of
             Inl err \<Rightarrow>
               status_code (fst (compareHandler c (newResponseWriter hs) q wd)) =
                 Some (if err = ErrNotFound then 404 else 500)
           | Inr b \<Rightarrow>
               map fst (new_calls wd (snd (compareHandler c (newResponseWriter hs) q wd))) =
                 [FindBenchmark_op aID, FindBenchmark_op bID, Compare_op a b])))"
proof (intro conjI impI)
  assume "lastChunk (URL_Path r) = Some chunk \<and> fst (ParseInt chunk) \<noteq> 0"
  then show "case fst (FindBenchmark c (state wd) (fst (ParseInt chunk))) of
         Inr bench \<Rightarrow>
           status_code (fst (showBenchmark c (newResponseWriter hs) r wd)) = Some 200 \<and>
           response_body (fst (showBenchmark c (newResponseWriter hs) r wd)) = Content bench
       | Inl err \<Rightarrow>
           status_code (fst (showBenchmark c (newResponseWriter hs) r wd)) =
             Some (if err = ErrNotFound then 404 else 500)"
    by (auto simp add: showBenchmark_def call_FindBenchmark_eq Let_def
        split: sum.splits error.splits)
next
  assume "Query_Get q ''a'' \<noteq> [] \<and> Query_Get q ''b'' \<noteq> [] \<and>
    aID = fst (ParseInt (Query_Get q ''a'')) \<and> bID = fst (ParseInt (Query_Get q ''b'')) \<and>
    FindBenchmark c (state wd) aID = (resA, sA) \<and> FindBenchmark c sA bID = (resB, sB)"
  then show "case resA of
         Inl err \<Rightarrow>
           status_code (fst (compareHandler c (newResponseWriter hs) q wd)) =
             Some (if err = ErrNotFound then 404 else 500)
       | Inr a \<Rightarrow>
          (case resB of
             Inl err \<Rightarrow>
               status_code (fst (compareHandler c (newResponseWriter hs) q wd)) =
                 Some (if err = ErrNotFound then 404 else 500)
           | Inr b \<Rightarrow>
               map fst (new_calls wd (snd (compareHandler c (newResponseWriter hs) q wd))) =
                 [FindBenchmark_op aID, FindBenchmark_op bID, Compare_op a b])"
    by (auto simp add: compareHandler_def call_FindBenchmark_eq call_Compare_eq Let_def
        new_calls_def split: sum.splits error.splits)
qed

theorem C1_lookup_three_way_witness:
  "lastChunk (URL_Path \<lparr>URL_Path = ''/benchmarks/7'', URL_Query = []\<rparr>) = Some ''7''
   \<and> fst (ParseInt ''7'') \<noteq> 0
   \<and> status_code (fst (showBenchmark memory_env (newResponseWriter [])
        \<lparr>URL_Path = ''/benchmarks/7'', URL_Query = []\<rparr> two_runs)) = Some 404
   \<and> Query_Get \<lparr>URL_Path = ''/compare/'', URL_Query = [(''a'', ''1''), (''b'', ''500'')]\<rparr> ''a'' \<noteq> []
   \<and> Query_Get \<lparr>URL_Path = ''/compare/'', URL_Query = [(''a'', ''1''), (''b'', ''500'')]\<rparr> ''b'' \<noteq> []
   \<and> status_code (fst (compareHandler memory_env (newResponseWriter [])
        \<lparr>URL_Path = ''/compare/'', URL_Query = [(''a'', ''1''), (''b'', ''500'')]\<rparr> two_runs)) = Some 500"
proof -
  let ?r = "\<lparr>URL_Path = ''/benchmarks/7'', URL_Query = []\<rparr>"
  let ?q = "\<lparr>URL_Path = ''/compare/'', URL_Query = [(''a'', ''1''), (''b'', ''500'')]\<rparr>"
  have h1: "lastChunk (URL_Path ?r) = Some ''7''" by code_simp
  have h2: "fst (ParseInt ''7'') \<noteq> 0" by code_simp
  have h3: "fst (FindBenchmark memory_env (state two_runs) (fst (ParseInt ''7''))) = Inl ErrNotFound"
    by code_simp
  have h4: "Query_Get ?q ''a'' \<noteq> []" by code_simp
  have h5: "Query_Get ?q ''b'' \<noteq> []" by code_simp
  have h6: "FindBenchmark memory_env (state two_runs) (fst (ParseInt (Query_Get ?q ''a''))) =
      (Inr \<lparr>ID = 1, Created = 0, Commit = ''c1'', Content = ''BenchmarkA 10 5 ns/op''\<rparr>, state two_runs)"
    by code_simp
  have h7: "FindBenchmark memory_env (state two_runs) (fst (ParseInt (Query_Get ?q ''b''))) =
      (Inl (ErrOther ''connection lost''), state two_runs)"
    by code_simp
  note inst = C1_lookup_three_way [where r = "?r" and chunk = "''7''" and c = memory_env
      and wd = two_runs and hs = "[]" and q = "?q"
      and aID = "fst (ParseInt (Query_Get ?q ''a''))" and bID = "fst (ParseInt (Query_Get ?q ''b''))"
      and resA = "Inr \<lparr>ID = 1, Created = 0, Commit = ''c1'', Content = ''BenchmarkA 10 5 ns/op''\<rparr>"
      and sA = "state two_runs"
      and resB = "Inl (ErrOther ''connection lost'')" and sB = "state two_runs"]
  show ?thesis
    using inst h1 h2 h3 h4 h5 h6 h7 by simp
qed

text \<open>
  C2: \<open>signed\<close> is true for every signature, content and secret.  So
  \<open>uploadHandler\<close> never answers 401, and the status, the body, the calls to the
  store and the state it leaves do not depend on the value of the signature header.
\<close>

theorem C2_signature_ignored:
  "signed sig content secret
   \<and> status_code (fst (uploadHandler c secret (newResponseWriter hs) r wd)) \<noteq> Some 401
   \<and> status_code (fst (uploadHandler c secret (newResponseWriter ((''signature'', sig) # hs)) r wd)) =
     status_code (fst (uploadHandler c secret (newResponseWriter ((''signature'', sig') # hs)) r wd))
   \<and> response_body (fst (uploadHandler c secret (newResponseWriter ((''signature'', sig) # hs)) r wd)) =
     response_body (fst (uploadHandler c secret (newResponseWriter ((''signature'', sig') # hs)) r wd))
   \<and> snd (uploadHandler c secret (newResponseWriter ((''signature'', sig) # hs)) r wd) =
     snd (uploadHandler c secret (newResponseWriter ((''signature'', sig') # hs)) r wd)"
proof -
  have body_fail: "body (httpFailf c (newResponseWriter hs') code format args) =
      ExecuteTemplate c ''error'' (Sprintf c format args)" for hs' code format args
    by (simp add: httpFailf_def Write_def WriteHeader_def Header_Set_def newResponseWriter_def)
  have a: "status_code (fst (uploadHandler c secret (newResponseWriter hs') r wd)) \<noteq> Some 401" for hs'
    by (simp add: uploadHandler_def signed_def call_CreateBenchmark_eq Let_def
        split: option.splits sum.splits)
  have b: "status_code (fst (uploadHandler c secret (newResponseWriter hs1) r wd)) =
           status_code (fst (uploadHandler c secret (newResponseWriter hs2) r wd))" for hs1 hs2
    by (simp add: uploadHandler_def signed_def call_CreateBenchmark_eq Let_def
        split: option.splits sum.splits)
  have c: "response_body (fst (uploadHandler c secret (newResponseWriter hs1) r wd)) =
           response_body (fst (uploadHandler c secret (newResponseWriter hs2) r wd))" for hs1 hs2
    by (simp add: uploadHandler_def signed_def call_CreateBenchmark_eq Let_def body_fail
        split: option.splits sum.splits)
  have d: "snd (uploadHandler c secret (newResponseWriter hs1) r wd) =
           snd (uploadHandler c secret (newResponseWriter hs2) r wd)" for hs1 hs2
    by (simp add: uploadHandler_def signed_def call_CreateBenchmark_eq Let_def
        split: option.splits sum.splits)
  show ?thesis
    using a b c d by (simp add: signed_def)
qed

text \<open>
  C3: when both query values are given, both runs are found and \<open>Compare\<close>
  returns no error, \<open>compareHandler\<close> calls the store exactly twice, with
  \<open>FindBenchmark\<close> for the id of \<open>a\<close> and then for the id of \<open>b\<close>, and the
  body is exactly what \<open>Compare\<close> returned for the two runs (status 200).
\<close>

theorem C3_compare_success:
  assumes "Query_Get q ''a'' \<noteq> []" and "Query_Get q ''b'' \<noteq> []"
    and "aID = fst (ParseInt (Query_Get q ''a''))" and "bID = fst (ParseInt (Query_Get q ''b''))"
    and "FindBenchmark c (state wd) aID = (Inr a, s1)"
    and "FindBenchmark c s1 bID = (Inr b, s2)"
    and "Compare c s2 a b = (Inr cmp, s3)"
  shows "store_calls (new_calls wd (snd (compareHandler c (newResponseWriter hs) q wd))) =
           [FindBenchmark_op aID, FindBenchmark_op bID]
         \<and> response_body (fst (compareHandler c (newResponseWriter hs) q wd)) = cmp
         \<and> status_code (fst (compareHandler c (newResponseWriter hs) q wd)) = Some 200"
  using assms
  by (simp add: compareHandler_def call_FindBenchmark_eq call_Compare_eq Let_def
      new_calls_def store_calls_def)

theorem C3_compare_success_witness:
  "Query_Get \<lparr>URL_Path = ''/compare/'', URL_Query = [(''a'', ''1''), (''b'', ''2'')]\<rparr> ''a'' \<noteq> []
   \<and> Query_Get \<lparr>URL_Path = ''/compare/'', URL_Query = [(''a'', ''1''), (''b'', ''2'')]\<rparr> ''b'' \<noteq> []
   \<and> store_calls (new_calls two_runs (snd (compareHandler memory_env (newResponseWriter [])
        \<lparr>URL_Path = ''/compare/'', URL_Query = [(''a'', ''1''), (''b'', ''2'')]\<rparr> two_runs))) =
        [FindBenchmark_op 1, FindBenchmark_op 2]
   \<and> response_body (fst (compareHandler memory_env (newResponseWriter [])
        \<lparr>URL_Path = ''/compare/'', URL_Query = [(''a'', ''1''), (''b'', ''2'')]\<rparr> two_runs)) =
        ''BenchmarkA 10 5 ns/op|BenchmarkA 10 6 ns/op''"
proof -
  let ?q = "\<lparr>URL_Path = ''/compare/'', URL_Query = [(''a'', ''1''), (''b'', ''2'')]\<rparr>"
  let ?a = "\<lparr>ID = 1, Created = 0, Commit = ''c1'', Content = ''BenchmarkA 10 5 ns/op''\<rparr>"
  let ?b = "\<lparr>ID = 2, Created = 0, Commit = ''c2'', Content = ''BenchmarkA 10 6 ns/op''\<rparr>"
  have h1: "Query_Get ?q ''a'' \<noteq> []" by code_simp
  have h2: "Query_Get ?q ''b'' \<noteq> []" by code_simp
  have h3: "1 = fst (ParseInt (Query_Get ?q ''a''))" by code_simp
  have h4: "2 = fst (ParseInt (Query_Get ?q ''b''))" by code_simp
  have h5: "FindBenchmark memory_env (state two_runs) 1 = (Inr ?a, state two_runs)" by code_simp
  have h6: "FindBenchmark memory_env (state two_runs) 2 = (Inr ?b, state two_runs)" by code_simp
  have h7: "Compare memory_env (state two_runs) ?a ?b =
      (Inr ''BenchmarkA 10 5 ns/op|BenchmarkA 10 6 ns/op'', state two_runs)" by code_simp
  show ?thesis
    using C3_compare_success [OF h1 h2 h3 h4 h5 h6 h7, of "[]"] h1 h2 by simp
qed

text \<open>
  C4: \<open>parse\<close> fails with the error \<open>no benchmark measurements found\<close> exactly
  when no line of the input yields a measurement.  In particular it fails on every
  input without a line whose first token starts with \<open>Benchmark\<close>, and it succeeds,
  with a run that is not empty, on every input with a well-formed measurement line.
\<close>

theorem C4_parse_error_iff:
  "(parse number rawText = Inl (ParseError ''no benchmark measurements found'') \<longleftrightarrow>
      (\<forall>line \<in> set (text_lines rawText). parse_line number line = None))
   \<and> ((\<forall>line \<in> set (text_lines rawText). \<not> candidate_line line) \<longrightarrow>
        parse number rawText = Inl (ParseError ''no benchmark measurements found''))
   \<and> ((\<exists>line \<in> set (text_lines rawText). well_formed_line number line) \<longrightarrow>
        (\<exists>run. parse number rawText = Inr run \<and> run \<noteq> []))"
proof -
  have iff: "parse number rawText = Inl (ParseError ''no benchmark measurements found'') \<longleftrightarrow>
      (\<forall>line \<in> set (text_lines rawText). parse_line number line = None)"
    by (simp add: parse_def Let_def fold_add_line_Nil_iff)
  have none: "parse number rawText = Inl (ParseError ''no benchmark measurements found'')"
    if "\<forall>line \<in> set (text_lines rawText). \<not> candidate_line line"
    using that iff not_candidate_skipped by blast
  have some: "\<exists>run. parse number rawText = Inr run \<and> run \<noteq> []"
    if "\<exists>line \<in> set (text_lines rawText). well_formed_line number line"
  proof -
    from that have "\<not> (\<forall>line \<in> set (text_lines rawText). parse_line number line = None)"
      using well_formed_parsed by blast
    then have "fold (add_line number) (text_lines rawText) [] \<noteq> []"
      by (simp add: fold_add_line_Nil_iff)
    then show ?thesis
      by (simp add: parse_def Let_def)
  qed
  show ?thesis
    using iff none some by blast
qed

theorem C4_parse_error_iff_witness:
  "text_lines (''noise line'' @ [CHR 0x0A] @ ''BenchmarkFoo-1 100 5 ns/op'' @
        [CHR 0x0A] @ ''more noise'' @ [CHR 0x0A]) =
     [''noise line'', ''BenchmarkFoo-1 100 5 ns/op'', ''more noise'', []]
   \<and> well_formed_line decimal ''BenchmarkFoo-1 100 5 ns/op''
   \<and> parse decimal (''noise line'' @ [CHR 0x0A] @ ''BenchmarkFoo-1 100 5 ns/op'' @
        [CHR 0x0A] @ ''more noise'' @ [CHR 0x0A]) = Inr [(''BenchmarkFoo-1'', [(''ns/op'', 5)])]
   \<and> text_lines (''noise line'' @ [CHR 0x0A] @ ''PASS'') = [''noise line'', ''PASS'']
   \<and> candidate_line ''noise line'' = False \<and> candidate_line ''PASS'' = False
   \<and> parse decimal (''noise line'' @ [CHR 0x0A] @ ''PASS'') =
       Inl (ParseError ''no benchmark measurements found'')"
proof -
  let ?good = "''noise line'' @ [CHR 0x0A] @ ''BenchmarkFoo-1 100 5 ns/op'' @
        [CHR 0x0A] @ ''more noise'' @ [CHR 0x0A]"
  let ?bad = "''noise line'' @ [CHR 0x0A] @ ''PASS''"
  have g1: "text_lines ?good = [''noise line'', ''BenchmarkFoo-1 100 5 ns/op'', ''more noise'', []]"
    by code_simp
  have g2: "well_formed_line decimal ''BenchmarkFoo-1 100 5 ns/op''"
    by code_simp
  have g3: "parse decimal ?good = Inr [(''BenchmarkFoo-1'', [(''ns/op'', 5)])]"
    by code_simp
  have b1: "text_lines ?bad = [''noise line'', ''PASS'']"
    by code_simp
  have b2: "candidate_line ''noise line'' = False" "candidate_line ''PASS'' = False"
    by code_simp+
  have "\<exists>line \<in> set (text_lines ?good). well_formed_line decimal line"
    using g1 g2 by simp
  then have ok: "\<exists>run. parse decimal ?good = Inr run \<and> run \<noteq> []"
    using C4_parse_error_iff [of decimal ?good] by blast
  have "\<forall>line \<in> set (text_lines ?bad). \<not> candidate_line line"
    using b1 b2 by simp
  then have fails: "parse decimal ?bad = Inl (ParseError ''no benchmark measurements found'')"
    using C4_parse_error_iff [of decimal ?bad] by blast
  show ?thesis
    using g1 g2 g3 b1 b2 ok fails by blast
qed




text \<open>
  C7: no call is repeated.  \<open>showBenchmark\<close> looks a run up at most once.
  \<open>compareHandler\<close> makes at most the lookup of \<open>a\<close>, the lookup of \<open>b\<close> and
  one comparison, in this order.  In both, a call that returns an error is the last
  call of the request, and the response is then an error (404 or 500).
\<close>

theorem C7_no_retry:
  "(let out = showBenchmark c (newResponseWriter hs) r wd;
        new = new_calls wd (snd out)
    in trace (snd out) = trace wd @ new \<and> length new \<le> 1 \<and>
       ((\<exists>e \<in> set new. snd e) \<longrightarrow> status_code (fst out) \<in> {Some 404, Some 500}))
   \<and>
   (let out = compareHandler c (newResponseWriter hs) q wd;
        new = new_calls wd (snd out)
    in trace (snd out) = trace wd @ new \<and>
       (\<exists>n a b. map fst new =
          take n [FindBenchmark_op (fst (ParseInt (Query_Get q ''a''))),
                  FindBenchmark_op (fst (ParseInt (Query_Get q ''b''))),
                  Compare_op a b]) \<and>
       list_all (\<lambda>e. \<not> snd e) (butlast new) \<and>
       ((\<exists>e \<in> set new. snd e) \<longrightarrow> status_code (fst out) \<in> {Some 404, Some 500}))"
proof (intro conjI)
  show "let out = showBenchmark c (newResponseWriter hs) r wd;
        new = new_calls wd (snd out)
    in trace (snd out) = trace wd @ new \<and> length new \<le> 1 \<and>
       ((\<exists>e \<in> set new. snd e) \<longrightarrow> status_code (fst out) \<in> {Some 404, Some 500})"
    by (auto simp add: showBenchmark_def call_FindBenchmark_eq Let_def new_calls_def
        split: option.splits sum.splits error.splits)
next
  let ?aID = "fst (ParseInt (Query_Get q ''a''))"
  let ?bID = "fst (ParseInt (Query_Get q ''b''))"
  have shape: "\<exists>n a b. ops = take n [FindBenchmark_op ?aID, FindBenchmark_op ?bID, Compare_op a b]"
    if ops: "ops = [] \<or> ops = [FindBenchmark_op ?aID] \<or> ops = [FindBenchmark_op ?aID, FindBenchmark_op ?bID]
        \<or> (\<exists>a b. ops = [FindBenchmark_op ?aID, FindBenchmark_op ?bID, Compare_op a b])" for ops
  proof -
    consider "ops = []" | "ops = [FindBenchmark_op ?aID]"
      | "ops = [FindBenchmark_op ?aID, FindBenchmark_op ?bID]"
      | a b where "ops = [FindBenchmark_op ?aID, FindBenchmark_op ?bID, Compare_op a b]"
      using ops by blast
    then show ?thesis
    proof cases
      case 1
      then have "ops = take 0 [FindBenchmark_op ?aID, FindBenchmark_op ?bID, Compare_op undefined undefined]"
        by simp
      then show ?thesis by blast
    next
      case 2
      then have "ops = take 1 [FindBenchmark_op ?aID, FindBenchmark_op ?bID, Compare_op undefined undefined]"
        by simp
      then show ?thesis by blast
    next
      case 3
      then have "ops = take 2 [FindBenchmark_op ?aID, FindBenchmark_op ?bID, Compare_op undefined undefined]"
        by (simp add: numeral_2_eq_2)
      then show ?thesis by blast
    next
      case 4
      then have "ops = take 3 [FindBenchmark_op ?aID, FindBenchmark_op ?bID, Compare_op a b]"
        by simp
      then show ?thesis by blast
    qed
  qed
  have cases: "let out = compareHandler c (newResponseWriter hs) q wd;
        new = new_calls wd (snd out)
    in trace (snd out) = trace wd @ new \<and>
       (map fst new = [] \<or> map fst new = [FindBenchmark_op ?aID]
        \<or> map fst new = [FindBenchmark_op ?aID, FindBenchmark_op ?bID]
        \<or> (\<exists>a b. map fst new = [FindBenchmark_op ?aID, FindBenchmark_op ?bID, Compare_op a b])) \<and>
       list_all (\<lambda>e. \<not> snd e) (butlast new) \<and>
       ((\<exists>e \<in> set new. snd e) \<longrightarrow> status_code (fst out) \<in> {Some 404, Some 500})"
    by (auto simp add: compareHandler_def call_FindBenchmark_eq call_Compare_eq Let_def
        new_calls_def split: sum.splits error.splits)
  show "let out = compareHandler c (newResponseWriter hs) q wd;
        new = new_calls wd (snd out)
    in trace (snd out) = trace wd @ new \<and>
       (\<exists>n a b. map fst new =
          take n [FindBenchmark_op ?aID, FindBenchmark_op ?bID, Compare_op a b]) \<and>
       list_all (\<lambda>e. \<not> snd e) (butlast new) \<and>
       ((\<exists>e \<in> set new. snd e) \<longrightarrow> status_code (fst out) \<in> {Some 404, Some 500})"
  proof -
    let ?out = "compareHandler c (newResponseWriter hs) q wd"
    let ?new = "new_calls wd (snd ?out)"
    have t: "trace (snd ?out) = trace wd @ ?new"
      and d: "map fst ?new = [] \<or> map fst ?new = [FindBenchmark_op ?aID]
        \<or> map fst ?new = [FindBenchmark_op ?aID, FindBenchmark_op ?bID]
        \<or> (\<exists>a b. map fst ?new = [FindBenchmark_op ?aID, FindBenchmark_op ?bID, Compare_op a b])"
      and l: "list_all (\<lambda>e. \<not> snd e) (butlast ?new)"
      and e: "(\<exists>e \<in> set ?new. snd e) \<longrightarrow> status_code (fst ?out) \<in> {Some 404, Some 500}"
      using cases unfolding Let_def by simp_all
    show ?thesis
      unfolding Let_def using t shape [OF d] l e by (intro conjI)
  qed
qed

theorem C7_no_retry_witness:
  "new_calls two_runs (snd (compareHandler memory_env (newResponseWriter [])
      \<lparr>URL_Path = ''/compare/'', URL_Query = [(''a'', ''500''), (''b'', ''1'')]\<rparr> two_runs)) =
     [(FindBenchmark_op 500, True)]
   \<and> status_code (fst (compareHandler memory_env (newResponseWriter [])
      \<lparr>URL_Path = ''/compare/'', URL_Query = [(''a'', ''500''), (''b'', ''1'')]\<rparr> two_runs))
       \<in> {Some 404, Some 500}"
proof -
  let ?q = "\<lparr>URL_Path = ''/compare/'', URL_Query = [(''a'', ''500''), (''b'', ''1'')]\<rparr>"
  have new: "new_calls two_runs (snd (compareHandler memory_env (newResponseWriter []) ?q two_runs)) =
      [(FindBenchmark_op 500, True)]"
    by code_simp
  show ?thesis
    using C7_no_retry [where c = memory_env and hs = "[]" and q = "?q" and wd = two_runs] new
    by (simp add: Let_def)
qed



text \<open>
  C9: on every non-empty path \<open>lastChunk\<close> returns (none of its index and slice
  expressions leaves the bounds), its result is the substring that follows the last
  \<open>/\<close> once at most one trailing \<open>/\<close> has been removed, and the result
  contains no \<open>/\<close>.  Non-emptiness is required: on the empty path the first index
  expression \<open>path[len(path)-1]\<close> panics.
\<close>

theorem C9_lastChunk:
  "(path \<noteq> [] \<longrightarrow>
      lastChunk path = Some (after_last_slash (drop_one_trailing_slash path)) \<and>
      CHR ''/'' \<notin> set (after_last_slash (drop_one_trailing_slash path)))
   \<and> lastChunk [] = None"
  by (simp add: lastChunk_nonempty lastChunk_empty after_last_slash_no_slash)

theorem C9_lastChunk_witness:
  "''/benchmarks/42/'' \<noteq> [] \<and> lastChunk ''/benchmarks/42/'' = Some ''42''"
  using C9_lastChunk [of "''/benchmarks/42/''"]
  by (simp add: after_last_slash_def drop_one_trailing_slash_def)

text \<open>
  C10: a path chunk beyond the range of int64 does not parse, yet \<open>ParseInt\<close>
  returns the largest int64 together with its range error; \<open>showBenchmark\<close> drops the
  error, finds the id different from 0 and looks the run 9223372036854775807 up in the
  store.
\<close>

theorem C10_out_of_range:
  "lastChunk ''/benchmarks/9223372036854775808'' = Some ''9223372036854775808''
   \<and> ParseInt ''9223372036854775808'' = (9223372036854775807, Some ErrRange)
   \<and> new_calls wd (snd (showBenchmark c (newResponseWriter hs)
        \<lparr>URL_Path = ''/benchmarks/9223372036854775808'', URL_Query = []\<rparr> wd)) =
       [(FindBenchmark_op 9223372036854775807,
         isl (fst (FindBenchmark c (state wd) 9223372036854775807)))]"
proof -
  have a: "lastChunk ''/benchmarks/9223372036854775808'' = Some ''9223372036854775808''"
    by code_simp
  have b: "ParseInt ''9223372036854775808'' = (9223372036854775807, Some ErrRange)"
    by code_simp
  show ?thesis
    by (simp add: a b showBenchmark_def call_FindBenchmark_eq new_calls_def split: sum.splits error.splits)
qed

end
